theory Spec2Isabelle
  imports Complex_Main "HOL-Library.Sublist"
begin

section \<open>Python values, errors and floats\<close>

text \<open>
  The pipeline of \<^verbatim>\<open>KalshiClient.get_top_events_by_category\<close> (kalshi_client.py) works on
  the decoded JSON payload of the events endpoint. Exceptions are values of \<open>py_error\<close>;
  a computation that may raise returns \<open>py_error + 'a\<close>.
\<close>

datatype py_error = ValueError | TypeError | OverflowError | AttributeError

text \<open>
  A Python float is an IEEE 754 double: a rational that the format represents exactly, an
  infinity or a NaN. Signed zero is not distinguished (no operation of the pipeline
  observes it).
\<close>

datatype pyfloat = Finite rat | PosInf | NegInf | NaN

definition pow2 :: "int \<Rightarrow> rat" where
  "pow2 e = (if 0 \<le> e then 2 ^ nat e else 1 / 2 ^ nat (- e))"

function bit_length :: "int \<Rightarrow> int" where
  "bit_length n = (if n \<le> 0 then 0 else 1 + bit_length (n div 2))"
  by pat_completeness auto
termination
proof (relation "measure nat")
  show "wf (measure nat)" by simp
next
  fix n :: int
  assume "\<not> n \<le> 0"
  then have "nat (n div 2) < nat n" by (simp add: nat_less_iff)
  then show "(n div 2, n) \<in> measure nat" by simp
qed

declare bit_length.simps [simp del]

text \<open>
  \<open>ilog2 x\<close> is the binary exponent of a positive rational, the \<open>k\<close> with
  \<open>2^k \<le> x < 2^(k+1)\<close>.
\<close>

definition ilog2 :: "rat \<Rightarrow> int" where
  "ilog2 x = (if 1 \<le> x then bit_length \<lfloor>x\<rfloor> - 1 else - bit_length (\<lceil>1 / x\<rceil> - 1))"

definition round_half_even :: "rat \<Rightarrow> int" where
  "round_half_even y =
     (let f = \<lfloor>y\<rfloor>; d = y - of_int f
      in if d < 1 / 2 then f else if 1 / 2 < d then f + 1
         else if even f then f else f + 1)"

text \<open>
  Rounding a rational to the nearest double, ties to even: 53 significant bits, the
  exponent of the last place not below \<open>-1074\<close> (subnormals), overflow to an infinity.
\<close>

definition round_double :: "rat \<Rightarrow> pyfloat" where
  "round_double x =
     (if x = 0 then Finite 0
      else let a = \<bar>x\<bar>;
               e = max (ilog2 a - 52) (- 1074);
               v = of_int (round_half_even (a / pow2 e)) * pow2 e
           in if 2 ^ 1024 \<le> v then (if 0 < x then PosInf else NegInf)
              else Finite (if 0 < x then v else - v))"

text \<open>\<^verbatim>\<open>f * 100\<close> on a float: the exact product, rounded.\<close>

fun fmul100 :: "pyfloat \<Rightarrow> pyfloat" where
  "fmul100 (Finite r) = round_double (r * 100)"
| "fmul100 PosInf = PosInf"
| "fmul100 NegInf = NegInf"
| "fmul100 NaN = NaN"

text \<open>\<^verbatim>\<open>int(f)\<close> truncates toward zero; it raises on an infinity and on a NaN.\<close>

fun py_int :: "pyfloat \<Rightarrow> py_error + int" where
  "py_int (Finite r) = Inr (if 0 \<le> r then \<lfloor>r\<rfloor> else \<lceil>r\<rceil>)"
| "py_int PosInf = Inl OverflowError"
| "py_int NegInf = Inl OverflowError"
| "py_int NaN = Inl ValueError"

subsection \<open>Strings\<close>

text \<open>
  Strings are ASCII here: \<^verbatim>\<open>str.lower\<close> maps \<open>A..Z\<close> to \<open>a..z\<close>, and \<^verbatim>\<open>a in b\<close> on
  strings is contiguous containment (\<^const>\<open>sublist\<close>).
\<close>

definition lower_char :: "char \<Rightarrow> char" where
  "lower_char c =
     (let n = (of_char c :: int) in if 65 \<le> n \<and> n \<le> 90 then char_of (n + 32) else c)"

definition lower :: "string \<Rightarrow> string" where
  "lower s = map lower_char s"

definition is_space :: "char \<Rightarrow> bool" where
  "is_space c =
     (let n = (of_char c :: int) in n = 32 \<or> (9 \<le> n \<and> n \<le> 13) \<or> (28 \<le> n \<and> n \<le> 31))"

definition strip :: "string \<Rightarrow> string" where
  "strip s = rev (dropWhile is_space (rev (dropWhile is_space s)))"

definition digit_val :: "char \<Rightarrow> int option" where
  "digit_val c =
     (let n = (of_char c :: int) in if 48 \<le> n \<and> n \<le> 57 then Some (n - 48) else None)"

subsection \<open>\<^verbatim>\<open>float(s)\<close> on a string\<close>

text \<open>
  The grammar of \<^verbatim>\<open>float\<close>: surrounding whitespace, a sign, then \<^verbatim>\<open>inf\<close>,
  \<^verbatim>\<open>infinity\<close> or \<^verbatim>\<open>nan\<close> in any case, or a decimal number: digits with single
  underscores between them, an optional fraction, an optional exponent. The value is the
  nearest double. Anything else raises \<^verbatim>\<open>ValueError\<close>.
\<close>

fun digitpart_rest :: "string \<Rightarrow> int list \<times> string" where
  "digitpart_rest [] = ([], [])"
| "digitpart_rest (c # cs) =
     (case digit_val c of
        Some d \<Rightarrow> (let (ds, r) = digitpart_rest cs in (d # ds, r))
      | None \<Rightarrow>
          (if c = CHR ''_'' then
             (case cs of
                [] \<Rightarrow> ([], c # cs)
              | c' # cs' \<Rightarrow>
                  (case digit_val c' of
                     Some d \<Rightarrow> (let (ds, r) = digitpart_rest cs' in (d # ds, r))
                   | None \<Rightarrow> ([], c # cs)))
           else ([], c # cs)))"

definition digitpart :: "string \<Rightarrow> (int list \<times> string) option" where
  "digitpart s =
     (case s of
        [] \<Rightarrow> None
      | c # cs \<Rightarrow>
          (case digit_val c of
             None \<Rightarrow> None
           | Some d \<Rightarrow> (let (ds, r) = digitpart_rest cs in Some (d # ds, r))))"

definition digits_value :: "int list \<Rightarrow> int" where
  "digits_value ds = foldl (\<lambda>a d. 10 * a + d) 0 ds"

definition scale10 :: "rat \<Rightarrow> int \<Rightarrow> rat" where
  "scale10 r e = (if 0 \<le> e then r * 10 ^ nat e else r / 10 ^ nat (- e))"

definition parse_exponent :: "string \<Rightarrow> int option" where
  "parse_exponent s =
     (case s of
        [] \<Rightarrow> Some 0
      | c # cs \<Rightarrow>
          (if c = CHR ''e'' \<or> c = CHR ''E'' then
             (let (neg, cs') =
                    (case cs of
                       [] \<Rightarrow> (False, cs)
                     | g # t \<Rightarrow>
                         (if g = CHR ''-'' then (True, t)
                          else if g = CHR ''+'' then (False, t) else (False, cs)))
              in case digitpart cs' of
                   None \<Rightarrow> None
                 | Some (ds, r) \<Rightarrow>
                     (if r = [] then Some (if neg then - digits_value ds else digits_value ds)
                      else None))
           else None))"

definition finish_number :: "int list \<Rightarrow> int list \<Rightarrow> string \<Rightarrow> rat option" where
  "finish_number ip fp r =
     (case parse_exponent r of
        None \<Rightarrow> None
      | Some e \<Rightarrow>
          Some (scale10 (of_int (digits_value ip) + of_int (digits_value fp) / 10 ^ length fp) e))"

definition parse_number :: "string \<Rightarrow> rat option" where
  "parse_number s =
     (case digitpart s of
        Some (ip, r1) \<Rightarrow>
          (case r1 of
             [] \<Rightarrow> finish_number ip [] r1
           | c # r2 \<Rightarrow>
               (if c = CHR ''.'' then
                  (case digitpart r2 of
                     Some (fp, r3) \<Rightarrow> finish_number ip fp r3
                   | None \<Rightarrow> finish_number ip [] r2)
                else finish_number ip [] r1))
      | None \<Rightarrow>
          (case s of
             [] \<Rightarrow> None
           | c # r2 \<Rightarrow>
               (if c = CHR ''.'' then
                  (case digitpart r2 of
                     Some (fp, r3) \<Rightarrow> finish_number [] fp r3
                   | None \<Rightarrow> None)
                else None)))"

definition parse_float :: "string \<Rightarrow> pyfloat option" where
  "parse_float s =
     (let t = strip s;
          (neg, u) =
            (case t of
               [] \<Rightarrow> (False, t)
             | g # r \<Rightarrow>
                 (if g = CHR ''-'' then (True, r)
                  else if g = CHR ''+'' then (False, r) else (False, t)));
          w = lower u
      in if w = ''inf'' \<or> w = ''infinity'' then Some (if neg then NegInf else PosInf)
         else if w = ''nan'' then Some NaN
         else (case parse_number u of
                 None \<Rightarrow> None
               | Some r \<Rightarrow> Some (round_double (if neg then - r else r))))"

subsection \<open>The value of a JSON field\<close>

text \<open>
  What the JSON decoder can put under a key: \<^verbatim>\<open>None\<close>, a bool, a number (\<open>PyNum r\<close> is
  a number literal of value \<open>r\<close>, decoded to an int or a float), a string, or a list or
  dict (\<open>PyOther\<close>).

  \<^verbatim>\<open>float(v)\<close>: a number becomes the nearest double. (For an int too large for a double
  \<^verbatim>\<open>float\<close> itself raises \<^verbatim>\<open>OverflowError\<close>; here the infinity reaches \<^verbatim>\<open>int\<close>, which
  raises the same exception inside the same \<^verbatim>\<open>try\<close>.)
\<close>

datatype py_value = PyNone | PyBool bool | PyNum rat | PyStr string | PyOther

fun py_float :: "py_value \<Rightarrow> py_error + pyfloat" where
  "py_float PyNone = Inl TypeError"
| "py_float (PyBool b) = Inr (Finite (if b then 1 else 0))"
| "py_float (PyNum r) = Inr (round_double r)"
| "py_float (PyStr s) = (case parse_float s of None \<Rightarrow> Inl ValueError | Some f \<Rightarrow> Inr f)"
| "py_float PyOther = Inl TypeError"

text \<open>
  Lines 712--717 of kalshi_client.py:
  \<^verbatim>\<open>
  yes_price = market.get("yes_bid_dollars", "0")
  try:
      probability = int(float(yes_price) * 100)
  except (ValueError, TypeError):
      probability = 0
  \<close>
  The argument is the field of the market dict, \<open>None\<close> when the key is absent.
\<close>

definition derive_probability :: "py_value option \<Rightarrow> py_error + int" where
  "derive_probability field =
     (let yes_price = (case field of None \<Rightarrow> PyStr ''0'' | Some v \<Rightarrow> v)
      in case (case py_float yes_price of
                 Inl e \<Rightarrow> Inl e
               | Inr f \<Rightarrow> py_int (fmul100 f)) of
           Inl ValueError \<Rightarrow> Inr 0
         | Inl TypeError \<Rightarrow> Inr 0
         | Inl e \<Rightarrow> Inl e
         | Inr n \<Rightarrow> Inr n)"

section \<open>The data model\<close>

text \<open>
  The decoded payload, as far as the pipeline reads it. A field is \<open>None\<close> when the key
  is absent, so that \<^verbatim>\<open>d.get(key, default)\<close> is \<open>get_or (field d) dflt\<close>. The bid
  price is kept as a raw JSON value, since the pipeline guards its conversion; the other
  fields have the type the payload gives them.
\<close>

definition get_or :: "'a option \<Rightarrow> 'a \<Rightarrow> 'a" where
  "get_or field dflt = (case field of None \<Rightarrow> dflt | Some v \<Rightarrow> v)"

record raw_market =
  market_ticker :: "string option"
  market_status :: "string option"
  yes_bid_dollars :: "py_value option"
  market_volume_24h :: "int option"
  yes_sub_title :: "string option"

record raw_event =
  raw_event_ticker :: "string option"
  raw_title :: "string option"
  raw_category :: "string option"
  raw_series_ticker :: "string option"
  raw_markets :: "raw_market list"

text \<open>The dataclasses \<^verbatim>\<open>MarketOption\<close> and \<^verbatim>\<open>EventData\<close>.\<close>

record market_option =
  name :: string
  probability :: int
  volume_24h :: int
  ticker :: string
  price_change_24h :: int
  series_ticker :: string

record event_data =
  event_ticker :: string
  title :: string
  category :: string
  options :: "market_option list"
  total_volume :: int
  num_markets :: int
  max_price_change :: int
  event_series_ticker :: string

section \<open>Step 2 and the category filter of step 3\<close>

definition CATEGORY_MAPPING :: "(string \<times> string list) list" where
  "CATEGORY_MAPPING =
     [(''economics'', [''financials'', ''economics'']),
      (''crypto'', [''financials'']),
      (''politics'', [''politics'', ''elections'']),
      (''elections'', [''elections'']),
      (''financials'', [''financials'']),
      (''sports'', [''sports'']),
      (''entertainment'', [''entertainment'']),
      (''climate'', [''climate and weather'']),
      (''weather'', [''climate and weather'']),
      (''health'', [''health'']),
      (''science'', [''science and technology'']),
      (''technology'', [''science and technology'']),
      (''world'', [''world'']),
      (''companies'', [''companies'']),
      (''social'', [''social'']),
      (''transportation'', [''transportation''])]"

definition CRYPTO_KEYWORDS :: "string list" where
  "CRYPTO_KEYWORDS =
     [''bitcoin'', ''btc'', ''ethereum'', ''eth'', ''crypto'', ''cryptocurrency'',
      ''solana'', ''sol'', ''dogecoin'', ''doge'', ''xrp'', ''ripple'', ''cardano'',
      ''ada'', ''polkadot'', ''dot'', ''avalanche'', ''avax'', ''chainlink'', ''link'',
      ''polygon'', ''matic'', ''litecoin'', ''ltc'', ''uniswap'', ''uni'', ''shiba'',
      ''pepe'', ''memecoin'', ''altcoin'', ''defi'', ''nft'', ''web3'', ''binance'',
      ''coinbase'', ''stablecoin'', ''usdt'', ''usdc'']"

text \<open>\<^verbatim>\<open>CATEGORY_MAPPING.get(category_lower, [category_lower])\<close>\<close>

definition target_categories :: "string \<Rightarrow> string list" where
  "target_categories category_lower =
     (case map_of CATEGORY_MAPPING category_lower of
        Some targets \<Rightarrow> targets
      | None \<Rightarrow> [category_lower])"

text \<open>
  \<^verbatim>\<open>any(target.lower() in event_category or event_category in target.lower()
      for target in target_categories)\<close>
\<close>

definition category_matches :: "string list \<Rightarrow> string \<Rightarrow> bool" where
  "category_matches targets event_category =
     list_ex (\<lambda>target. sublist (lower target) event_category
                       \<or> sublist event_category (lower target)) targets"

text \<open>\<^verbatim>\<open>any(keyword in event_title for keyword in CRYPTO_KEYWORDS)\<close>\<close>

definition keyword_matches :: "string \<Rightarrow> bool" where
  "keyword_matches event_title = list_ex (\<lambda>keyword. sublist keyword event_title) CRYPTO_KEYWORDS"

text \<open>The value of \<^verbatim>\<open>matches\<close> for one event (lines 664--693).\<close>

definition event_matches :: "string \<Rightarrow> raw_event \<Rightarrow> bool" where
  "event_matches cat event =
     (let category_lower = lower cat;
          targets = target_categories category_lower;
          event_category = lower (get_or (raw_category event) []);
          event_title = lower (get_or (raw_title event) [])
      in if category_lower = ''crypto''
         then category_matches targets event_category \<and> keyword_matches event_title
         else if category_lower = ''economics''
         then category_matches targets event_category \<and> \<not> keyword_matches event_title
         else category_matches targets event_category)"

section \<open>Step 3: building the events\<close>

text \<open>
  \<^verbatim>\<open>list.sort(key=..., reverse=True)\<close>: a stable sort, descending by key; elements with
  equal keys keep their order.
\<close>

definition sort_desc :: "('a \<Rightarrow> int) \<Rightarrow> 'a list \<Rightarrow> 'a list" where
  "sort_desc key xs = sort_key (\<lambda>x. - key x) xs"

text \<open>
  The loop over the active markets (lines 709--730), with its two accumulators. An
  exception that the \<^verbatim>\<open>try\<close> does not catch leaves the loop.
\<close>

fun options_loop ::
  "string \<Rightarrow> raw_market list \<Rightarrow> market_option list \<Rightarrow> int
     \<Rightarrow> py_error + (market_option list \<times> int)" where
  "options_loop st [] opts total_vol = Inr (opts, total_vol)"
| "options_loop st (market # rest) opts total_vol =
     (case derive_probability (yes_bid_dollars market) of
        Inl e \<Rightarrow> Inl e
      | Inr p \<Rightarrow>
          (let volume = (case market_volume_24h market of None \<Rightarrow> 0 | Some v \<Rightarrow> v)
           in options_loop st rest
                (opts @ [\<lparr>name = get_or (yes_sub_title market) ''Unknown'',
                          probability = p,
                          volume_24h = volume,
                          ticker = get_or (market_ticker market) [],
                          price_change_24h = 0,
                          series_ticker = st\<rparr>])
                (total_vol + volume)))"

text \<open>
  The body of the loop over the events after the category filter (lines 695--745):
  \<open>Inr None\<close> is the \<^verbatim>\<open>continue\<close> of an event without active markets.
\<close>

definition build_event :: "raw_event \<Rightarrow> py_error + event_data option" where
  "build_event event =
     (let active_markets = filter (\<lambda>m. market_status m = Some ''active'') (raw_markets event)
      in if active_markets = [] then Inr None
         else
           (let st = get_or (raw_series_ticker event) []
            in case options_loop st active_markets [] 0 of
                 Inl e \<Rightarrow> Inl e
               | Inr (opts, total_vol) \<Rightarrow>
                   (let sorted_opts = sort_desc probability opts
                    in Inr (Some \<lparr>event_ticker = get_or (raw_event_ticker event) [],
                                   title = get_or (raw_title event) [],
                                   category = get_or (raw_category event) [],
                                   options = sorted_opts,
                                   total_volume = total_vol,
                                   num_markets = int (length sorted_opts),
                                   max_price_change = 0,
                                   event_series_ticker = st\<rparr>))))"

fun events_loop ::
  "string \<Rightarrow> raw_event list \<Rightarrow> event_data list \<Rightarrow> py_error + event_data list" where
  "events_loop cat [] all_events = Inr all_events"
| "events_loop cat (event # rest) all_events =
     (if \<not> event_matches cat event then events_loop cat rest all_events
      else (case build_event event of
              Inl e \<Rightarrow> Inl e
            | Inr None \<Rightarrow> events_loop cat rest all_events
            | Inr (Some event_data) \<Rightarrow> events_loop cat rest (all_events @ [event_data])))"

section \<open>Candlesticks and the 24-hour price change\<close>

text \<open>
  The candlestick endpoint is a parameter: for a series ticker and a market ticker it
  either fails (\<^verbatim>\<open>_make_request\<close> raises) or answers with the list under
  \<^verbatim>\<open>"candlesticks"\<close>. Of a candle only its \<^verbatim>\<open>"price"\<close> entry is read: absent, \<^verbatim>\<open>null\<close>,
  or a dict whose entries are integers (cents) or absent/\<^verbatim>\<open>null\<close>. The time window of
  the request is not modelled.
\<close>

record candle_price =
  price_open :: "int option"
  price_close :: "int option"
  price_previous :: "int option"

datatype candle = PriceAbsent | PriceNull | Price candle_price

datatype candle_response = RequestFailed | Candlesticks "candle list"

type_synonym candle_source = "string \<Rightarrow> string \<Rightarrow> candle_response"

text \<open>
  \<^verbatim>\<open>get_market_candlesticks\<close> turns every exception of the request into an empty list
  (lines 282--286); the result here is \<^verbatim>\<open>data.get("candlesticks", [])\<close>.
\<close>

definition get_market_candlesticks :: "candle_source \<Rightarrow> string \<Rightarrow> string \<Rightarrow> candle list" where
  "get_market_candlesticks src st mt =
     (case src st mt of RequestFailed \<Rightarrow> [] | Candlesticks cs \<Rightarrow> cs)"

text \<open>\<^verbatim>\<open>price.get(key, 0) or 0\<close>\<close>

definition or0 :: "int option \<Rightarrow> int" where
  "or0 field = (case field of None \<Rightarrow> 0 | Some v \<Rightarrow> v)"

definition get_price_change_24h :: "candle_source \<Rightarrow> string \<Rightarrow> string \<Rightarrow> py_error + int" where
  "get_price_change_24h src st mt =
     (let candlesticks = get_market_candlesticks src st mt
      in if candlesticks \<noteq> [] then
           (case last candlesticks of
              PriceNull \<Rightarrow> Inl AttributeError
            | PriceAbsent \<Rightarrow> Inr 0
            | Price price \<Rightarrow>
                (let open_price = or0 (price_open price);
                     close_price = or0 (price_close price);
                     previous_price = or0 (price_previous price)
                 in if previous_price \<noteq> 0 then Inr (close_price - previous_price)
                    else if open_price \<noteq> 0 then Inr (close_price - open_price)
                    else Inr 0))
         else Inr 0)"

section \<open>Step 4 and 5: enrichment, sorting, truncation\<close>

text \<open>
  The inner loop of the \<^verbatim>\<open>price_change\<close> branch (lines 757--770) over the options of
  one event. The objects are updated in place; here the updated list is returned, with
  \<^verbatim>\<open>max_change\<close> and the list of the candlestick requests issued so far.
\<close>

type_synonym request_log = "(string \<times> string) list"

fun price_change_loop ::
  "candle_source \<Rightarrow> market_option list \<Rightarrow> int \<Rightarrow> request_log
     \<Rightarrow> market_option list \<times> int \<times> request_log" where
  "price_change_loop src [] max_change reqs = ([], max_change, reqs)"
| "price_change_loop src (opt # rest) max_change reqs =
     (if series_ticker opt \<noteq> [] \<and> ticker opt \<noteq> [] then
        (case get_price_change_24h src (series_ticker opt) (ticker opt) of
           Inr change \<Rightarrow>
             (let (rest', m, l) =
                    price_change_loop src rest
                      (if \<bar>change\<bar> > \<bar>max_change\<bar> then change else max_change)
                      (reqs @ [(series_ticker opt, ticker opt)])
              in (opt\<lparr>price_change_24h := change\<rparr> # rest', m, l))
         | Inl e \<Rightarrow>
             (let (rest', m, l) =
                    price_change_loop src rest max_change
                      (reqs @ [(series_ticker opt, ticker opt)])
              in (opt # rest', m, l)))
      else (let (rest', m, l) = price_change_loop src rest max_change reqs
            in (opt # rest', m, l)))"

fun enrich_events ::
  "candle_source \<Rightarrow> event_data list \<Rightarrow> request_log \<Rightarrow> event_data list \<times> request_log" where
  "enrich_events src [] reqs = ([], reqs)"
| "enrich_events src (ev # rest) reqs =
     (let (opts, max_change, reqs1) = price_change_loop src (options ev) 0 reqs;
          (rest', reqs2) = enrich_events src rest reqs1
      in (ev\<lparr>options := opts, max_price_change := max_change\<rparr> # rest', reqs2))"

text \<open>Step 4 (lines 748--774): the sorted events and the requests issued.\<close>

definition sort_events ::
  "candle_source \<Rightarrow> string \<Rightarrow> event_data list \<Rightarrow> event_data list \<times> request_log" where
  "sort_events src sort_by all_events =
     (if sort_by = ''volume'' then (sort_desc total_volume all_events, [])
      else if sort_by = ''num_markets'' then (sort_desc num_markets all_events, [])
      else if sort_by = ''price_change'' then
        (let (enriched, reqs) = enrich_events src all_events []
         in (sort_desc (\<lambda>e. \<bar>max_price_change e\<bar>) enriched, reqs))
      else (all_events, []))"

text \<open>\<^verbatim>\<open>xs[:n]\<close>: a negative \<open>n\<close> counts from the end.\<close>

definition slice_to :: "'a list \<Rightarrow> int \<Rightarrow> 'a list" where
  "slice_to xs n = (if 0 \<le> n then take (nat n) xs else take (nat (int (length xs) + n)) xs)"

text \<open>
  \<^verbatim>\<open>get_top_events_by_category\<close>, given the events of the response of step 1 and the
  candlestick endpoint.
\<close>

definition get_top_events_by_category ::
  "candle_source \<Rightarrow> raw_event list \<Rightarrow> string \<Rightarrow> int \<Rightarrow> string
     \<Rightarrow> py_error + (event_data list \<times> request_log)" where
  "get_top_events_by_category src events cat top_n sort_by =
     (case events_loop cat events [] of
        Inl e \<Rightarrow> Inl e
      | Inr all_events \<Rightarrow>
          (let (sorted_events, reqs) = sort_events src sort_by all_events
           in Inr (slice_to sorted_events top_n, reqs)))"

section \<open>Auxiliary notions and an example payload\<close>

definition enrich_option :: "candle_source \<Rightarrow> market_option \<Rightarrow> market_option" where
  "enrich_option src opt =
     (if series_ticker opt \<noteq> [] \<and> ticker opt \<noteq> [] then
        (case get_price_change_24h src (series_ticker opt) (ticker opt) of
           Inr change \<Rightarrow> opt\<lparr>price_change_24h := change\<rparr>
         | Inl e \<Rightarrow> opt)
      else opt)"

definition fetched_change :: "candle_source \<Rightarrow> market_option \<Rightarrow> int option" where
  "fetched_change src opt =
     (if series_ticker opt \<noteq> [] \<and> ticker opt \<noteq> [] then
        (case get_price_change_24h src (series_ticker opt) (ticker opt) of
           Inr change \<Rightarrow> Some change
         | Inl e \<Rightarrow> None)
      else None)"

definition max_step :: "int \<Rightarrow> int \<Rightarrow> int" where
  "max_step change max_change = (if \<bar>change\<bar> > \<bar>max_change\<bar> then change else max_change)"

definition requests_of :: "market_option list \<Rightarrow> request_log" where
  "requests_of opts =
     map (\<lambda>opt. (series_ticker opt, ticker opt))
       (filter (\<lambda>opt. series_ticker opt \<noteq> [] \<and> ticker opt \<noteq> []) opts)"

definition enrich_event :: "candle_source \<Rightarrow> event_data \<Rightarrow> event_data" where
  "enrich_event src ev =
     ev\<lparr>options := map (enrich_option src) (options ev),
        max_price_change := fold max_step (List.map_filter (fetched_change src) (options ev)) 0\<rparr>"

definition mk_market :: "string \<Rightarrow> string \<Rightarrow> string \<Rightarrow> string \<Rightarrow> int \<Rightarrow> raw_market" where
  "mk_market t st bid lbl vol =
     \<lparr>market_ticker = Some t, market_status = Some st, yes_bid_dollars = Some (PyStr bid),
      market_volume_24h = Some vol, yes_sub_title = Some lbl\<rparr>"

definition mk_event :: "string \<Rightarrow> string \<Rightarrow> string \<Rightarrow> string \<Rightarrow> raw_market list \<Rightarrow> raw_event" where
  "mk_event t ttl c s ms =
     \<lparr>raw_event_ticker = Some t, raw_title = Some ttl, raw_category = Some c,
      raw_series_ticker = Some s, raw_markets = ms\<rparr>"

definition ex_event1 :: raw_event where
  "ex_event1 = mk_event ''E1'' ''Who wins?'' ''Politics'' ''S1''
     [mk_market ''M1'' ''active'' ''0.30'' ''A'' 200, mk_market ''M2'' ''active'' ''0.955'' ''B'' 300]"

definition ex_event2 :: raw_event where
  "ex_event2 = mk_event ''E2'' ''Closed one'' ''Politics'' ''S2''
     [mk_market ''M3'' ''closed'' ''0.50'' ''C'' 50]"

definition ex_event3 :: raw_event where
  "ex_event3 = mk_event ''E3'' ''Next'' ''Elections'' ''S3''
     [mk_market ''M4'' ''active'' ''1.0'' ''D'' 900]"

definition ex_events :: "raw_event list" where
  "ex_events = [ex_event1, ex_event2, ex_event3]"

definition ex_src :: candle_source where
  "ex_src st mt = (if mt = ''M1'' then RequestFailed
     else if mt = ''M2'' then Candlesticks [Price \<lparr>price_open = Some 40, price_close = Some 45, price_previous = None\<rparr>]
     else Candlesticks [])"

definition ex_out1 :: event_data where
  "ex_out1 =
     \<lparr>event_ticker = ''E1'', title = ''Who wins?'', category = ''Politics'',
       options =
         [\<lparr>name = ''B'', probability = 95, volume_24h = 300, ticker = ''M2'',
            price_change_24h = 0, series_ticker = ''S1''\<rparr>,
          \<lparr>name = ''A'', probability = 30, volume_24h = 200, ticker = ''M1'',
            price_change_24h = 0, series_ticker = ''S1''\<rparr>],
       total_volume = 500, num_markets = 2, max_price_change = 0,
       event_series_ticker = ''S1''\<rparr>"

definition ex_out3 :: event_data where
  "ex_out3 =
     \<lparr>event_ticker = ''E3'', title = ''Next'', category = ''Elections'',
       options =
         [\<lparr>name = ''D'', probability = 100, volume_24h = 900, ticker = ''M4'',
            price_change_24h = 0, series_ticker = ''S3''\<rparr>],
       total_volume = 900, num_markets = 1, max_price_change = 0,
       event_series_ticker = ''S3''\<rparr>"

section \<open>Properties\<close>

lemma sum_list_insort_key: "sum_list (map f (insort_key k x xs)) = (f x :: int) + sum_list (map f xs)"
  by (induction xs) auto

lemma sum_list_sort_desc: "sum_list (map f (sort_desc k xs)) = (sum_list (map f xs) :: int)"
  unfolding sort_desc_def by (induction xs) (auto simp: sum_list_insort_key)

lemma set_sort_desc [simp]: "set (sort_desc k xs) = set xs"
  by (simp add: sort_desc_def)

lemma length_sort_desc [simp]: "length (sort_desc k xs) = length xs"
  by (simp add: sort_desc_def)

lemma set_slice_to: "set (slice_to xs n) \<subseteq> set xs"
  by (auto simp: slice_to_def dest: in_set_takeD)

lemma options_loop_acc:
  "options_loop st ms acc tv = Inr (opts, t) \<Longrightarrow>
     \<exists>new. opts = acc @ new \<and> length new = length ms
       \<and> t = tv + sum_list (map volume_24h new)
       \<and> (\<forall>opt\<in>set new. price_change_24h opt = 0)"
proof (induction ms arbitrary: acc tv)
  case Nil
  then show ?case by simp
next
  case (Cons m ms)
  then show ?case
    by (fastforce simp: Let_def split: sum.splits)
qed

lemma build_event_Some:
  assumes "build_event ev = Inr (Some e)"
  shows "options e \<noteq> []"
    and "total_volume e = sum_list (map volume_24h (options e))"
    and "num_markets e = int (length (options e))"
    and "max_price_change e = 0"
    and "\<forall>opt\<in>set (options e). price_change_24h opt = 0"
proof -
  let ?act = "filter (\<lambda>m. market_status m = Some ''active'') (raw_markets ev)"
  from assms have ne: "?act \<noteq> []"
    by (auto simp: build_event_def Let_def split: if_splits)
  from assms ne obtain opts t where
    loop: "options_loop (get_or (raw_series_ticker ev) []) ?act [] 0 = Inr (opts, t)"
    and e: "options e = sort_desc probability opts" "total_volume e = t"
      "num_markets e = int (length (sort_desc probability opts))" "max_price_change e = 0"
    by (auto simp: build_event_def Let_def split: if_splits sum.splits)
  from options_loop_acc[OF loop] have
    len: "length opts = length ?act" and t: "t = sum_list (map volume_24h opts)"
    and z: "\<forall>opt\<in>set opts. price_change_24h opt = 0"
    by auto
  from len ne e show "options e \<noteq> []" by (metis length_0_conv length_sort_desc)
  from t e show "total_volume e = sum_list (map volume_24h (options e))"
    by (simp add: sum_list_sort_desc)
  from e show "num_markets e = int (length (options e))" by simp
  from e show "max_price_change e = 0" by simp
  from z e show "\<forall>opt\<in>set (options e). price_change_24h opt = 0" by simp
qed

lemma events_loop_acc:
  "events_loop cat evs acc = Inr out \<Longrightarrow>
     \<exists>new. out = acc @ new
       \<and> (\<forall>e\<in>set new. \<exists>ev\<in>set evs. event_matches cat ev \<and> build_event ev = Inr (Some e))"
proof (induction evs arbitrary: acc)
  case Nil
  then show ?case by simp
next
  case (Cons ev evs)
  show ?case
  proof (cases "event_matches cat ev")
    case False
    with Cons.prems have "events_loop cat evs acc = Inr out" by simp
    from Cons.IH[OF this] show ?thesis by auto
  next
    case True
    show ?thesis
    proof (cases "build_event ev")
      case (Inl err)
      with True Cons.prems show ?thesis by simp
    next
      case (Inr r)
      show ?thesis
      proof (cases r)
        case None
        with True Inr Cons.prems have "events_loop cat evs acc = Inr out" by simp
        from Cons.IH[OF this] show ?thesis by auto
      next
        case (Some e)
        with True Inr Cons.prems have "events_loop cat evs (acc @ [e]) = Inr out" by simp
        from Cons.IH[OF this] obtain new where
          new: "out = (acc @ [e]) @ new"
          "\<forall>e'\<in>set new. \<exists>ev'\<in>set evs. event_matches cat ev' \<and> build_event ev' = Inr (Some e')"
          by auto
        have "out = acc @ (e # new)" using new by simp
        moreover have "\<forall>e'\<in>set (e # new). \<exists>ev'\<in>set (ev # evs).
            event_matches cat ev' \<and> build_event ev' = Inr (Some e')"
          using new(2) True Inr Some by auto
        ultimately show ?thesis by blast
      qed
    qed
  qed
qed

lemma price_change_loop_eq:
  "price_change_loop src opts mc rq =
     (map (enrich_option src) opts,
      fold max_step (List.map_filter (fetched_change src) opts) mc,
      rq @ requests_of opts)"
proof (induction opts arbitrary: mc rq)
  case Nil
  then show ?case by (simp add: requests_of_def List.map_filter_simps)
next
  case (Cons opt opts)
  show ?case
    by (cases "get_price_change_24h src (series_ticker opt) (ticker opt)")
       (simp_all add: Cons.IH enrich_option_def fetched_change_def requests_of_def
          List.map_filter_simps max_step_def)
qed

lemma floor_rat_numeral_div: "\<lfloor>numeral a / numeral b :: rat\<rfloor> = numeral a div numeral b"
  by (metis floor_divide_of_int_eq of_int_numeral)

lemma ceiling_rat_numeral_div: "\<lceil>numeral a / numeral b :: rat\<rceil> = - (- numeral a div numeral b)"
  by (metis ceiling_def floor_divide_of_int_eq minus_divide_left of_int_minus of_int_numeral)

lemma round_double_pos_eval:
  assumes "0 < x" "ilog2 x = k" "max (k - 52) (- 1074) = e"
    "round_half_even (x / pow2 e) = m" "of_int m * pow2 e = v" "v < 2 ^ 1024"
  shows "round_double x = Finite v"
  using assms by (auto simp: round_double_def Let_def)

lemmas num_eval = ilog2_def pow2_def round_half_even_def Let_def bit_length.simps
  floor_rat_numeral_div ceiling_rat_numeral_div

lemma parse_030: "parse_float ''0.30'' = Some (round_double (3 / 10))"
proof -
  have 1: "strip ''0.30'' = ''0.30''" by code_simp
  have 2: "lower ''0.30'' = ''0.30''" by code_simp
  have 3: "parse_number ''0.30'' = Some (3 / 10)" by code_simp
  show ?thesis by (simp add: parse_float_def 1 2 3)
qed

lemma round_030: "round_double (3 / 10) = Finite (5404319552844595 / 18014398509481984)"
  apply (rule round_double_pos_eval[where k="-2" and e="-54" and m=5404319552844595])
  apply simp
  apply (simp add: num_eval)
  apply simp
  apply (simp add: num_eval)
  apply (simp add: num_eval)
  apply simp
  done

lemma round_030_100: "round_double (135107988821114875 / 4503599627370496) = Finite (30)"
  apply (rule round_double_pos_eval[where k="4" and e="-48" and m=8444249301319680])
  apply simp
  apply (simp add: num_eval)
  apply simp
  apply (simp add: num_eval)
  apply (simp add: num_eval)
  apply simp
  done

lemma prob_030: "derive_probability (Some (PyStr ''0.30'')) = Inr 30"
  by (simp add: derive_probability_def parse_030 round_030 round_030_100 floor_rat_numeral_div)

lemma parse_0955: "parse_float ''0.955'' = Some (round_double (191 / 200))"
proof -
  have 1: "strip ''0.955'' = ''0.955''" by code_simp
  have 2: "lower ''0.955'' = ''0.955''" by code_simp
  have 3: "parse_number ''0.955'' = Some (191 / 200)" by code_simp
  show ?thesis by (simp add: parse_float_def 1 2 3)
qed

lemma round_0955: "round_double (191 / 200) = Finite (8601875288277647 / 9007199254740992)"
  apply (rule round_double_pos_eval[where k="-1" and e="-53" and m=8601875288277647])
  apply simp
  apply (simp add: num_eval)
  apply simp
  apply (simp add: num_eval)
  apply (simp add: num_eval)
  apply simp
  done

lemma round_0955_100: "round_double (215046882206941175 / 2251799813685248) = Finite (191 / 2)"
  apply (rule round_double_pos_eval[where k="6" and e="-46" and m=6720215068966912])
  apply simp
  apply (simp add: num_eval)
  apply simp
  apply (simp add: num_eval)
  apply (simp add: num_eval)
  apply simp
  done

lemma prob_0955: "derive_probability (Some (PyStr ''0.955'')) = Inr 95"
  by (simp add: derive_probability_def parse_0955 round_0955 round_0955_100 floor_rat_numeral_div)

lemma parse_10: "parse_float ''1.0'' = Some (round_double (1))"
proof -
  have 1: "strip ''1.0'' = ''1.0''" by code_simp
  have 2: "lower ''1.0'' = ''1.0''" by code_simp
  have 3: "parse_number ''1.0'' = Some (1)" by code_simp
  show ?thesis by (simp add: parse_float_def 1 2 3)
qed

lemma round_10: "round_double (1) = Finite (1)"
  apply (rule round_double_pos_eval[where k="0" and e="-52" and m=4503599627370496])
  apply simp
  apply (simp add: num_eval)
  apply simp
  apply (simp add: num_eval)
  apply (simp add: num_eval)
  apply simp
  done

lemma round_10_100: "round_double (100) = Finite (100)"
  apply (rule round_double_pos_eval[where k="6" and e="-46" and m=7036874417766400])
  apply simp
  apply (simp add: num_eval)
  apply simp
  apply (simp add: num_eval)
  apply (simp add: num_eval)
  apply simp
  done

lemma prob_10: "derive_probability (Some (PyStr ''1.0'')) = Inr 100"
  by (simp add: derive_probability_def parse_10 round_10 round_10_100 floor_rat_numeral_div)

lemma parse_15: "parse_float ''1.5'' = Some (round_double (3 / 2))"
proof -
  have 1: "strip ''1.5'' = ''1.5''" by code_simp
  have 2: "lower ''1.5'' = ''1.5''" by code_simp
  have 3: "parse_number ''1.5'' = Some (3 / 2)" by code_simp
  show ?thesis by (simp add: parse_float_def 1 2 3)
qed

lemma round_15: "round_double (3 / 2) = Finite (3 / 2)"
  apply (rule round_double_pos_eval[where k="0" and e="-52" and m=6755399441055744])
  apply simp
  apply (simp add: num_eval)
  apply simp
  apply (simp add: num_eval)
  apply (simp add: num_eval)
  apply simp
  done

lemma round_15_100: "round_double (150) = Finite (150)"
  apply (rule round_double_pos_eval[where k="7" and e="-45" and m=5277655813324800])
  apply simp
  apply (simp add: num_eval)
  apply simp
  apply (simp add: num_eval)
  apply (simp add: num_eval)
  apply simp
  done

lemma prob_15: "derive_probability (Some (PyStr ''1.5'')) = Inr 150"
  by (simp add: derive_probability_def parse_15 round_15 round_15_100 floor_rat_numeral_div)

lemma parse_029: "parse_float ''0.29'' = Some (round_double (29 / 100))"
proof -
  have 1: "strip ''0.29'' = ''0.29''" by code_simp
  have 2: "lower ''0.29'' = ''0.29''" by code_simp
  have 3: "parse_number ''0.29'' = Some (29 / 100)" by code_simp
  show ?thesis by (simp add: parse_float_def 1 2 3)
qed

lemma round_029: "round_double (29 / 100) = Finite (5224175567749775 / 18014398509481984)"
  apply (rule round_double_pos_eval[where k="-2" and e="-54" and m=5224175567749775])
  apply simp
  apply (simp add: num_eval)
  apply simp
  apply (simp add: num_eval)
  apply (simp add: num_eval)
  apply simp
  done

lemma round_029_100: "round_double (130604389193744375 / 4503599627370496) = Finite (8162774324609023 / 281474976710656)"
  apply (rule round_double_pos_eval[where k="4" and e="-48" and m=8162774324609023])
  apply simp
  apply (simp add: num_eval)
  apply simp
  apply (simp add: num_eval)
  apply (simp add: num_eval)
  apply simp
  done

lemma prob_029: "derive_probability (Some (PyStr ''0.29'')) = Inr 28"
  by (simp add: derive_probability_def parse_029 round_029 round_029_100 floor_rat_numeral_div)

lemma ex_matches:
  "event_matches ''Politics'' ex_event1"
  "event_matches ''Politics'' ex_event2"
  "event_matches ''Politics'' ex_event3"
  by code_simp+

lemmas ex_defs = ex_event1_def ex_event2_def ex_event3_def mk_event_def mk_market_def

lemma ex_build1:
  "build_event ex_event1 =
     Inr (Some \<lparr>event_ticker = ''E1'', title = ''Who wins?'', category = ''Politics'',
       options =
         [\<lparr>name = ''B'', probability = 95, volume_24h = 300, ticker = ''M2'',
            price_change_24h = 0, series_ticker = ''S1''\<rparr>,
          \<lparr>name = ''A'', probability = 30, volume_24h = 200, ticker = ''M1'',
            price_change_24h = 0, series_ticker = ''S1''\<rparr>],
       total_volume = 500, num_markets = 2, max_price_change = 0,
       event_series_ticker = ''S1''\<rparr>)"
  by (simp add: build_event_def ex_defs get_or_def prob_030 prob_0955 sort_desc_def Let_def)

lemma ex_build2: "build_event ex_event2 = Inr None"
  by (simp add: build_event_def ex_defs)

lemma ex_build3:
  "build_event ex_event3 =
     Inr (Some \<lparr>event_ticker = ''E3'', title = ''Next'', category = ''Elections'',
       options =
         [\<lparr>name = ''D'', probability = 100, volume_24h = 900, ticker = ''M4'',
            price_change_24h = 0, series_ticker = ''S3''\<rparr>],
       total_volume = 900, num_markets = 1, max_price_change = 0,
       event_series_ticker = ''S3''\<rparr>)"
  by (simp add: build_event_def ex_defs get_or_def prob_10 sort_desc_def Let_def)

lemma ex_collect: "events_loop ''Politics'' ex_events [] = Inr [ex_out1, ex_out3]"
  by (simp add: ex_events_def ex_matches ex_build1 ex_build2 ex_build3 ex_out1_def ex_out3_def)

lemma ex_collect13: "events_loop ''Politics'' [ex_event1, ex_event3] [] = Inr [ex_out1, ex_out3]"
  by (simp add: ex_matches ex_build1 ex_build3 ex_out1_def ex_out3_def)

lemma ex_sorted_volume: "sort_desc total_volume [ex_out1, ex_out3] = [ex_out3, ex_out1]"
  by (simp add: sort_desc_def ex_out1_def ex_out3_def)

lemma ex_run_volume:
  "get_top_events_by_category ex_src ex_events ''Politics'' 5 ''volume'' = Inr ([ex_out3, ex_out1], [])"
  unfolding get_top_events_by_category_def ex_collect
  by (simp add: sort_events_def ex_sorted_volume slice_to_def)

lemma ex_run_volume13:
  "get_top_events_by_category ex_src [ex_event1, ex_event3] ''Politics'' 5 ''volume''
     = Inr ([ex_out3, ex_out1], [])"
  unfolding get_top_events_by_category_def ex_collect13
  by (simp add: sort_events_def ex_sorted_volume slice_to_def)

lemma in_slice_to: "x \<in> set (slice_to xs n) \<Longrightarrow> x \<in> set xs"
  using set_slice_to by fastforce

lemma enrich_events_eq:
  "enrich_events src evs rq =
     (map (enrich_event src) evs, rq @ concat (map (\<lambda>ev. requests_of (options ev)) evs))"
  by (induction evs arbitrary: rq) (simp_all add: price_change_loop_eq enrich_event_def)

lemma sort_events_eq:
  "sort_events src sb evs =
     (if sb = ''volume'' then (sort_desc total_volume evs, [])
      else if sb = ''num_markets'' then (sort_desc num_markets evs, [])
      else if sb = ''price_change'' then
        (sort_desc (\<lambda>e. \<bar>max_price_change e\<bar>) (map (enrich_event src) evs),
         concat (map (\<lambda>ev. requests_of (options ev)) evs))
      else (evs, []))"
  by (simp add: sort_events_def enrich_events_eq)

lemma get_top_Inr:
  assumes "get_top_events_by_category src events cat top_n sb = Inr (out, reqs)"
  obtains all_events where "events_loop cat events [] = Inr all_events"
    and "out = slice_to (fst (sort_events src sb all_events)) top_n"
    and "reqs = snd (sort_events src sb all_events)"
  using assms
  by (auto simp: get_top_events_by_category_def split: sum.splits prod.splits)

lemma in_sorted_events:
  assumes "e \<in> set (fst (sort_events src sb evs))"
  shows "e \<in> set evs \<or> (sb = ''price_change'' \<and> e \<in> enrich_event src ` set evs)"
  using assms by (auto simp: sort_events_eq split: if_splits)

lemma volume_enrich_option [simp]: "volume_24h (enrich_option src opt) = volume_24h opt"
  by (simp add: enrich_option_def split: sum.splits)

lemma enrich_event_frame [simp]:
  "total_volume (enrich_event src e) = total_volume e"
  "num_markets (enrich_event src e) = num_markets e"
  "length (options (enrich_event src e)) = length (options e)"
  "map volume_24h (options (enrich_event src e)) = map volume_24h (options e)"
  by (simp_all add: enrich_event_def comp_def)

lemma collected_events:
  assumes "events_loop cat events [] = Inr all_events" "e \<in> set all_events"
  obtains ev where "ev \<in> set events" "event_matches cat ev" "build_event ev = Inr (Some e)"
  using events_loop_acc[OF assms(1)] assms(2) by auto

text \<open>
  C8: every Event that \<^verbatim>\<open>get_top_events_by_category\<close> returns has a total volume equal
  to the sum of the 24h volumes of its options, and a market count equal to the number of
  its options (also after the price-change enrichment, which changes neither).
\<close>

theorem event_totals:
  assumes "get_top_events_by_category src events cat top_n sort_by = Inr (out, reqs)"
  shows "\<forall>e\<in>set out. total_volume e = sum_list (map volume_24h (options e))
           \<and> num_markets e = int (length (options e))"
proof
  fix e assume e: "e \<in> set out"
  from assms obtain all_events where
    loop: "events_loop cat events [] = Inr all_events"
    and out: "out = slice_to (fst (sort_events src sort_by all_events)) top_n"
    by (rule get_top_Inr)
  from e out have "e \<in> set (fst (sort_events src sort_by all_events))"
    by (simp add: in_slice_to)
  then consider "e \<in> set all_events" | e0 where "e0 \<in> set all_events" "e = enrich_event src e0"
    using in_sorted_events by blast
  then show "total_volume e = sum_list (map volume_24h (options e))
           \<and> num_markets e = int (length (options e))"
  proof cases
    case 1
    from collected_events[OF loop 1] obtain ev where "build_event ev = Inr (Some e)" by blast
    then show ?thesis using build_event_Some(2,3) by blast
  next
    case 2
    from collected_events[OF loop 2(1)] obtain ev where "build_event ev = Inr (Some e0)" by blast
    then have "total_volume e0 = sum_list (map volume_24h (options e0))"
      "num_markets e0 = int (length (options e0))"
      using build_event_Some(2,3) by blast+
    with 2(2) show ?thesis by simp
  qed
qed

theorem event_totals_witness:
  "get_top_events_by_category ex_src ex_events ''Politics'' 5 ''volume'' = Inr ([ex_out3, ex_out1], [])
   \<and> total_volume ex_out1 = sum_list (map volume_24h (options ex_out1))
   \<and> num_markets ex_out1 = int (length (options ex_out1))
   \<and> total_volume ex_out1 = 500 \<and> num_markets ex_out1 = 2"
  using event_totals[OF ex_run_volume] ex_run_volume
  by (simp add: ex_out1_def)

lemma build_event_inactive:
  assumes "list_all (\<lambda>m. market_status m \<noteq> Some ''active'') (raw_markets ev)"
  shows "build_event ev = Inr None"
proof -
  from assms have "filter (\<lambda>m. market_status m = Some ''active'') (raw_markets ev) = []"
    by (simp add: list_all_iff filter_empty_conv)
  then show ?thesis by (simp add: build_event_def)
qed

lemma events_loop_skip:
  assumes "build_event ev = Inr None"
  shows "events_loop cat (xs @ ev # ys) acc = events_loop cat (xs @ ys) acc"
  using assms
  by (induction xs arbitrary: acc) (auto split: sum.splits option.splits)

text \<open>
  C2: an upstream event none of whose markets has status \<^verbatim>\<open>active\<close> leaves no trace in
  the result: the result is the one for the payload without that event. And every Event of
  the result has at least one option.
\<close>

theorem no_empty_events:
  "(list_all (\<lambda>m. market_status m \<noteq> Some ''active'') (raw_markets ev) \<longrightarrow>
      get_top_events_by_category src (xs @ ev # ys) cat top_n sort_by
        = get_top_events_by_category src (xs @ ys) cat top_n sort_by)
   \<and> (get_top_events_by_category src events cat top_n sort_by = Inr (out, reqs) \<longrightarrow>
        (\<forall>e\<in>set out. options e \<noteq> [] \<and> 0 < num_markets e))"
proof (intro conjI impI ballI)
  assume "list_all (\<lambda>m. market_status m \<noteq> Some ''active'') (raw_markets ev)"
  then have "build_event ev = Inr None" by (rule build_event_inactive)
  then have "events_loop cat (xs @ ev # ys) [] = events_loop cat (xs @ ys) []"
    by (rule events_loop_skip)
  then show "get_top_events_by_category src (xs @ ev # ys) cat top_n sort_by
        = get_top_events_by_category src (xs @ ys) cat top_n sort_by"
    by (simp add: get_top_events_by_category_def)
next
  fix e
  assume run: "get_top_events_by_category src events cat top_n sort_by = Inr (out, reqs)"
    and e: "e \<in> set out"
  from run obtain all_events where
    loop: "events_loop cat events [] = Inr all_events"
    and out: "out = slice_to (fst (sort_events src sort_by all_events)) top_n"
    by (rule get_top_Inr)
  from e out have "e \<in> set (fst (sort_events src sort_by all_events))"
    by (simp add: in_slice_to)
  then consider "e \<in> set all_events" | e0 where "e0 \<in> set all_events" "e = enrich_event src e0"
    using in_sorted_events by blast
  then have "options e \<noteq> [] \<and> num_markets e = int (length (options e))"
  proof cases
    case 1
    from collected_events[OF loop 1] obtain ev' where "build_event ev' = Inr (Some e)" by blast
    then show ?thesis using build_event_Some(1,3) by blast
  next
    case 2
    from collected_events[OF loop 2(1)] obtain ev' where "build_event ev' = Inr (Some e0)" by blast
    then have "options e0 \<noteq> []" "num_markets e0 = int (length (options e0))"
      using build_event_Some(1,3) by blast+
    with 2(2) show ?thesis by (auto simp: enrich_event_def)
  qed
  then show "options e \<noteq> []" and "0 < num_markets e" by auto
qed

theorem no_empty_events_witness:
  "list_all (\<lambda>m. market_status m \<noteq> Some ''active'') (raw_markets ex_event2)
   \<and> get_top_events_by_category ex_src ([ex_event1] @ ex_event2 # [ex_event3]) ''Politics'' 5 ''volume''
       = get_top_events_by_category ex_src ([ex_event1] @ [ex_event3]) ''Politics'' 5 ''volume''
   \<and> get_top_events_by_category ex_src ex_events ''Politics'' 5 ''volume'' = Inr ([ex_out3, ex_out1], [])
   \<and> options ex_out3 \<noteq> [] \<and> 0 < num_markets ex_out3
   \<and> options ex_out1 \<noteq> [] \<and> 0 < num_markets ex_out1"
proof -
  have inactive: "list_all (\<lambda>m. market_status m \<noteq> Some ''active'') (raw_markets ex_event2)"
    by (simp add: ex_defs)
  note inst = no_empty_events[of ex_event2 ex_src "[ex_event1]" "[ex_event3]" "''Politics''" 5
      "''volume''" ex_events "[ex_out3, ex_out1]" "[]"]
  from inst inactive ex_run_volume show ?thesis by (simp add: ex_events_def ex_out1_def ex_out3_def)
qed

end
